theory Spec2Isabelle
  imports Main "HOL-Library.Word"
begin

unbundle bit_operations_syntax

section \<open>IMA signature verification and key import (ima.c)\<close>

text \<open>
  A shallow embedding of \<^verbatim>\<open>framework/liblegato/linux/ima.c\<close>. Every function of the
  file builds a shell command line, hands it to \<^verbatim>\<open>system(3)\<close> and classifies the wait
  status it gets back. The embedding passes the outside world explicitly: the state of
  the machine the commands run on, the list of command lines handed to \<^verbatim>\<open>system\<close>
  together with the status each one returned, and the log.
\<close>

subsection \<open>Results, log and world\<close>

text \<open>
  Modelled from the spec: \<^verbatim>\<open>le_result_t\<close> is declared in \<^verbatim>\<open>legato.h\<close>, which is not part
  of the source at hand. The functions of this file return only \<^verbatim>\<open>LE_OK\<close> and
  \<^verbatim>\<open>LE_FAULT\<close>, the two outcomes (Verified, Fault) of the spec.
\<close>

datatype le_result_t = LE_OK | LE_FAULT

text \<open>
  Modelled from the spec: the logging macros \<^verbatim>\<open>LE_DEBUG\<close>, \<^verbatim>\<open>LE_ERROR\<close> and
  \<^verbatim>\<open>LE_CRIT\<close> of \<^verbatim>\<open>legato.h\<close> are not part of the source at hand; the spec calls
  what they do reporting for diagnostics. A call appends one entry to the log: the level,
  the format string and the arguments in order (\<open>S\<close> for a \<^verbatim>\<open>%s\<close> argument, \<open>D\<close> for a
  \<^verbatim>\<open>%d\<close> argument; \<^verbatim>\<open>%m\<close> takes no argument).
\<close>

datatype log_level = DEBUG | ERROR | CRIT

datatype log_arg = S string | D int

type_synonym log_entry = "log_level \<times> string \<times> log_arg list"

record 'k world =
  ext :: 'k
  trace :: "(string \<times> 32 word) list"
  logs :: "log_entry list"

definition LE_DEBUG :: "string \<Rightarrow> log_arg list \<Rightarrow> 'k world \<Rightarrow> 'k world" where
  "LE_DEBUG fmt args w = w\<lparr>logs := logs w @ [(DEBUG, fmt, args)]\<rparr>"

definition LE_ERROR :: "string \<Rightarrow> log_arg list \<Rightarrow> 'k world \<Rightarrow> 'k world" where
  "LE_ERROR fmt args w = w\<lparr>logs := logs w @ [(ERROR, fmt, args)]\<rparr>"

definition LE_CRIT :: "string \<Rightarrow> log_arg list \<Rightarrow> 'k world \<Rightarrow> 'k world" where
  "LE_CRIT fmt args w = w\<lparr>logs := logs w @ [(CRIT, fmt, args)]\<rparr>"

subsection \<open>The C library: system, wait status, snprintf, fts\<close>

text \<open>
  \<^verbatim>\<open>system(3)\<close> is a parameter: given the command line and the state of the machine it
  yields the \<^verbatim>\<open>int\<close> it returns and the state the command leaves behind. A call is
  recorded in the trace.
\<close>

type_synonym 'k system_fn = "string \<Rightarrow> 'k \<Rightarrow> 32 word \<times> 'k"

definition call_system :: "'k system_fn \<Rightarrow> string \<Rightarrow> 'k world \<Rightarrow> 32 word \<times> 'k world" where
  "call_system system cmd w =
     (case system cmd (ext w) of
        (exitCode, k) \<Rightarrow> (exitCode, w\<lparr>ext := k, trace := trace w @ [(cmd, exitCode)]\<rparr>))"

text \<open>
  The macros of \<^verbatim>\<open><sys/wait.h>\<close> as glibc defines them on Linux:
  \<^verbatim>\<open>WIFEXITED(s)\<close> is \<^verbatim>\<open>((s) & 0x7f) == 0\<close> and \<^verbatim>\<open>WEXITSTATUS(s)\<close> is
  \<^verbatim>\<open>((s) & 0xff00) >> 8\<close>.
\<close>

definition WIFEXITED :: "32 word \<Rightarrow> bool" where
  "WIFEXITED status = (status AND 0x7f = 0)"

definition WEXITSTATUS :: "32 word \<Rightarrow> 32 word" where
  "WEXITSTATUS status = drop_bit 8 (status AND 0xff00)"

text \<open>
  How a command can end, and the status word Linux reports for it: a normal exit with an
  8-bit code, a kill by a signal (with or without core dump), or \<^verbatim>\<open>system\<close> failing to
  create the child process, which returns \<open>-1\<close>. Signal numbers lie between 1 and 126.
\<close>

datatype outcome = Exited "8 word" | Signaled nat bool | SpawnFailed

fun wait_status :: "outcome \<Rightarrow> 32 word" where
  "wait_status (Exited code) = push_bit 8 (ucast code)"
| "wait_status (Signaled sig core) = word_of_nat sig OR (if core then 0x80 else 0)"
| "wait_status SpawnFailed = - 1"

fun valid_outcome :: "outcome \<Rightarrow> bool" where
  "valid_outcome (Signaled sig core) = (0 < sig \<and> sig < 127)"
| "valid_outcome t = True"

text \<open>
  An external tool whose behaviour is fixed: the status of a command depends on the command
  line alone, and running it leaves the machine as it was.
\<close>

definition fixed_tool :: "(string \<Rightarrow> 32 word) \<Rightarrow> 'k system_fn" where
  "fixed_tool tool cmd k = (tool cmd, k)"

text \<open>The test all three callers of \<^verbatim>\<open>system\<close> apply to the status.\<close>

definition exit_zero :: "32 word \<Rightarrow> bool" where
  "exit_zero exitCode \<longleftrightarrow> WIFEXITED exitCode \<and> 0 = WEXITSTATUS exitCode"

text \<open>
  \<^verbatim>\<open>snprintf(buf, sz, ...)\<close> stores at most \<open>sz - 1\<close> bytes of the formatted text
  (and the terminating NUL); the rest is dropped. The callers ignore its return value.
\<close>

definition MAX_CMD_BYTES :: nat where
  "MAX_CMD_BYTES = 4096"

definition EVMCTL_PATH :: string where
  "EVMCTL_PATH = ''/usr/bin/evmctl''"

definition snprintf :: "nat \<Rightarrow> string \<Rightarrow> string" where
  "snprintf sz formatted = take (sz - 1) formatted"

text \<open>
  \<^verbatim>\<open>fts(3)\<close>: the classification \<^verbatim>\<open>fts_info\<close> of a traversal entry and the fields of
  \<^verbatim>\<open>FTSENT\<close> the code reads. \<^verbatim>\<open>fts_open\<close> is a parameter: \<open>None\<close> when it returns
  \<^verbatim>\<open>NULL\<close>, otherwise the entries that the successive calls of \<^verbatim>\<open>fts_read\<close> return,
  in order, before \<^verbatim>\<open>fts_read\<close> returns \<^verbatim>\<open>NULL\<close>.
\<close>

datatype fts_info_t =
    FTS_D | FTS_DC | FTS_DEFAULT | FTS_DNR | FTS_DOT | FTS_DP | FTS_ERR
  | FTS_F | FTS_INIT | FTS_NS | FTS_NSOK | FTS_SL | FTS_SLNONE | FTS_W

fun fts_info_code :: "fts_info_t \<Rightarrow> int" where
  "fts_info_code FTS_D = 1"
| "fts_info_code FTS_DC = 2"
| "fts_info_code FTS_DEFAULT = 3"
| "fts_info_code FTS_DNR = 4"
| "fts_info_code FTS_DOT = 5"
| "fts_info_code FTS_DP = 6"
| "fts_info_code FTS_ERR = 7"
| "fts_info_code FTS_F = 8"
| "fts_info_code FTS_INIT = 9"
| "fts_info_code FTS_NS = 10"
| "fts_info_code FTS_NSOK = 11"
| "fts_info_code FTS_SL = 12"
| "fts_info_code FTS_SLNONE = 13"
| "fts_info_code FTS_W = 14"

record FTSENT =
  fts_name :: string
  fts_accpath :: string
  fts_path :: string
  fts_info :: fts_info_t

type_synonym fts_open_fn = "string \<Rightarrow> FTSENT list option"

subsection \<open>VerifyFile\<close>

definition verify_format :: "string \<Rightarrow> string \<Rightarrow> string" where
  "verify_format filePath certPath =
     EVMCTL_PATH @ '' ima_verify '' @ filePath @ '' -k '' @ certPath @ '' ''"

definition verify_cmd :: "string \<Rightarrow> string \<Rightarrow> string" where
  "verify_cmd filePath certPath = snprintf MAX_CMD_BYTES (verify_format filePath certPath)"

definition VerifyFile ::
  "'k system_fn \<Rightarrow> string \<Rightarrow> string \<Rightarrow> 'k world \<Rightarrow> le_result_t \<times> 'k world" where
  "VerifyFile system filePath certPath w =
     (let cmd = verify_cmd filePath certPath;
          w1 = LE_DEBUG ''Verify file command: %s'' [S cmd] w
      in case call_system system cmd w1 of
           (exitCode, w2) \<Rightarrow>
             if WIFEXITED exitCode \<and> 0 = WEXITSTATUS exitCode
             then (LE_OK, LE_DEBUG ''Verified file: '%s' successfully'' [S filePath] w2)
             else (LE_FAULT,
                   LE_ERROR ''Failed to verify file '%s' with certificate '%s', exitCode: %d''
                     [S filePath, S certPath, D (sint (WEXITSTATUS exitCode))] w2))"

subsection \<open>VerifyDir\<close>

text \<open>
  The \<^verbatim>\<open>while\<close> loop over \<^verbatim>\<open>fts_read\<close>; \<open>debug_entry\<close> is the \<^verbatim>\<open>LE_DEBUG\<close>
  call at the head of its body. \<^verbatim>\<open>PUB_CERT_NAME\<close> is a macro of \<^verbatim>\<open>ima.h\<close>,
  which is not part of the source at hand, so it is a parameter. The \<^verbatim>\<open>switch\<close> has the
  cases \<^verbatim>\<open>FTS_SL\<close>, \<^verbatim>\<open>FTS_SLNONE\<close> and \<^verbatim>\<open>FTS_F\<close> and no default.
  \<^verbatim>\<open>fts_close\<close> releases the stream on both ways out and changes nothing that is
  modelled here.
\<close>

definition debug_entry :: "FTSENT \<Rightarrow> 'k world \<Rightarrow> 'k world" where
  "debug_entry entPtr w =
     LE_DEBUG ''Filename: %s, filePath: %s, rootPath: %s, fts_info: %d''
       [S (fts_name entPtr), S (fts_accpath entPtr), S (fts_path entPtr),
        D (fts_info_code (fts_info entPtr))] w"

fun VerifyDir_loop ::
  "'k system_fn \<Rightarrow> string \<Rightarrow> string \<Rightarrow> FTSENT list \<Rightarrow> 'k world \<Rightarrow> le_result_t \<times> 'k world" where
  "VerifyDir_loop system PUB_CERT_NAME certPath [] w = (LE_OK, w)"
| "VerifyDir_loop system PUB_CERT_NAME certPath (entPtr # rest) w =
     (let w1 = debug_entry entPtr w
      in case fts_info entPtr of
           FTS_SL \<Rightarrow> VerifyDir_loop system PUB_CERT_NAME certPath rest w1
         | FTS_SLNONE \<Rightarrow> VerifyDir_loop system PUB_CERT_NAME certPath rest w1
         | FTS_F \<Rightarrow>
             if fts_name entPtr \<noteq> PUB_CERT_NAME
             then (case VerifyFile system (fts_accpath entPtr) certPath w1 of
                     (r, w2) \<Rightarrow>
                       if LE_OK \<noteq> r
                       then (LE_FAULT,
                             LE_CRIT (''Failed to verify file '%s' with public certificate '%s''
                                        @ [CHR 0x27])
                               [S (fts_accpath entPtr), S certPath] w2)
                       else VerifyDir_loop system PUB_CERT_NAME certPath rest w2)
             else VerifyDir_loop system PUB_CERT_NAME certPath rest w1
         | _ \<Rightarrow> VerifyDir_loop system PUB_CERT_NAME certPath rest w1)"

definition VerifyDir ::
  "'k system_fn \<Rightarrow> fts_open_fn \<Rightarrow> string \<Rightarrow> string \<Rightarrow> string \<Rightarrow> 'k world
     \<Rightarrow> le_result_t \<times> 'k world" where
  "VerifyDir system fts_open PUB_CERT_NAME dirPath certPath w =
     (case fts_open dirPath of
        None \<Rightarrow> (LE_FAULT, LE_CRIT ''Could not access dir '%s'.  %m.'' [S dirPath] w)
      | Some entries \<Rightarrow> VerifyDir_loop system PUB_CERT_NAME certPath entries w)"


text \<open>
  The entries the loop hands to \<open>VerifyFile\<close>, the classifications that report a
  traversal error (unreadable directory, other error, failed \<^verbatim>\<open>stat\<close>), the traversal
  with those entries left out, and the part of the trace a call has added.
\<close>

definition eligible :: "string \<Rightarrow> FTSENT \<Rightarrow> bool" where
  "eligible PUB_CERT_NAME e \<longleftrightarrow> fts_info e = FTS_F \<and> fts_name e \<noteq> PUB_CERT_NAME"



definition issued :: "'k world \<Rightarrow> 'k world \<Rightarrow> (string \<times> 32 word) list" where
  "issued w w' = drop (length (trace w)) (trace w')"


subsection \<open>The traversal the C library produces\<close>

text \<open>
  \<^verbatim>\<open>fts(3)\<close> as glibc and the BSD C libraries implement it, called as the code calls it:
  one root, \<^verbatim>\<open>FTS_PHYSICAL\<close>, no comparison function. A tree is a regular file, a symbolic
  link, or a directory that can or cannot be read, with its named children.
  \<^item> \<^verbatim>\<open>fts_open\<close> returns \<^verbatim>\<open>NULL\<close> only for an empty path. A root that does not exist
    is accepted, and \<^verbatim>\<open>fts_read\<close> reports it as one \<^verbatim>\<open>FTS_NS\<close> entry.
  \<^item> A directory that can be read is reported before its children (\<^verbatim>\<open>FTS_D\<close>) and after
    them (\<^verbatim>\<open>FTS_DP\<close>); one that cannot be read is reported as \<^verbatim>\<open>FTS_D\<close> and then
    \<^verbatim>\<open>FTS_DNR\<close>, and nothing under it is reported.
  \<^item> \<^verbatim>\<open>fts\<close> changes into the directories it walks: for the root \<^verbatim>\<open>fts_accpath\<close> is the
    path given, for every other entry it is the name of the entry. The name of the root
    is the last component of the path given.
  \<open>regular_files\<close> lists every regular file of a tree, with its name and its path, also
  those under directories that cannot be read.
\<close>

datatype node = File | Symlink | Dir bool "(string \<times> node) list"

definition fts_ent :: "string \<Rightarrow> string \<Rightarrow> string \<Rightarrow> fts_info_t \<Rightarrow> FTSENT" where
  "fts_ent name accpath path info =
     \<lparr>fts_name = name, fts_accpath = accpath, fts_path = path, fts_info = info\<rparr>"

definition child_path :: "string \<Rightarrow> string \<Rightarrow> string" where
  "child_path path name =
     (if path \<noteq> [] \<and> last path = CHR ''/'' then path @ name else path @ ''/'' @ name)"

fun fts_walk :: "string \<Rightarrow> string \<Rightarrow> string \<Rightarrow> node \<Rightarrow> FTSENT list" where
  "fts_walk name accpath path File = [fts_ent name accpath path FTS_F]"
| "fts_walk name accpath path Symlink = [fts_ent name accpath path FTS_SL]"
| "fts_walk name accpath path (Dir readable children) =
     (if readable
      then fts_ent name accpath path FTS_D #
           concat (map (\<lambda>c. fts_walk (fst c) (fst c) (child_path path (fst c)) (snd c))
                     children) @
           [fts_ent name accpath path FTS_DP]
      else [fts_ent name accpath path FTS_D, fts_ent name accpath path FTS_DNR])"

definition fts_basename :: "string \<Rightarrow> string" where
  "fts_basename path =
     (if CHR ''/'' \<in> set path \<and> path \<noteq> ''/''
      then rev (takeWhile (\<lambda>c. c \<noteq> CHR ''/'') (rev path))
      else path)"

definition libc_fts_open :: "(string \<Rightarrow> node option) \<Rightarrow> fts_open_fn" where
  "libc_fts_open fs dirPath =
     (if dirPath = [] then None
      else Some (case fs dirPath of
                   None \<Rightarrow> [fts_ent (fts_basename dirPath) dirPath dirPath FTS_NS]
                 | Some nd \<Rightarrow> fts_walk (fts_basename dirPath) dirPath dirPath nd))"


subsection \<open>ImportPublicCert and ima_IsEnabled\<close>

definition import_format :: "string \<Rightarrow> string" where
  \<open>import_format certPath =
     ''SECFS=/sys/kernel/security && '' @
     ''grep -q  $SECFS /proc/mounts || mount -n -t securityfs securityfs $SECFS && '' @
     ''ima_id="`awk '/'' @ [CHR 0x5C] @ ''.ima/ { printf "%d", "0x"$1; }' /proc/keys`" && '' @
     EVMCTL_PATH @ '' import '' @ certPath @ '' $ima_id''\<close>

definition import_cmd :: "string \<Rightarrow> string" where
  "import_cmd certPath = snprintf MAX_CMD_BYTES (import_format certPath)"

definition ImportPublicCert ::
  "'k system_fn \<Rightarrow> string \<Rightarrow> 'k world \<Rightarrow> le_result_t \<times> 'k world" where
  "ImportPublicCert system certPath w =
     (let cmd = import_cmd certPath;
          w1 = LE_DEBUG ''cmd: %s'' [S cmd] w
      in case call_system system cmd w1 of
           (exitCode, w2) \<Rightarrow>
             if WIFEXITED exitCode \<and> 0 = WEXITSTATUS exitCode
             then (LE_OK, LE_DEBUG ''Installed certificate: '%s' successfully'' [S certPath] w2)
             else (LE_FAULT,
                   LE_ERROR ''Failed to import certificate '%s', exitCode: %d''
                     [S certPath, D (sint (WEXITSTATUS exitCode))] w2))"

definition IsEnabled_cmd :: string where
  \<open>IsEnabled_cmd =
     ''(zcat /proc/config.gz | grep CONFIG_IMA=y) &&'' @
     '' (cat /proc/cmdline | grep "ima_appraise=enforce")''\<close>

definition ima_IsEnabled :: "'k system_fn \<Rightarrow> 'k world \<Rightarrow> bool \<times> 'k world" where
  "ima_IsEnabled system w =
     (case call_system system IsEnabled_cmd w of
        (exitCode, w1) \<Rightarrow> (WIFEXITED exitCode \<and> 0 = WEXITSTATUS exitCode, w1))"

text \<open>The public entry points pass their arguments through.\<close>

definition ima_VerifyFile ::
  "'k system_fn \<Rightarrow> string \<Rightarrow> string \<Rightarrow> 'k world \<Rightarrow> le_result_t \<times> 'k world" where
  "ima_VerifyFile system filePath certPath w = VerifyFile system filePath certPath w"

definition ima_VerifyDir ::
  "'k system_fn \<Rightarrow> fts_open_fn \<Rightarrow> string \<Rightarrow> string \<Rightarrow> string \<Rightarrow> 'k world
     \<Rightarrow> le_result_t \<times> 'k world" where
  "ima_VerifyDir system fts_open PUB_CERT_NAME dirPath certPath w =
     VerifyDir system fts_open PUB_CERT_NAME dirPath certPath w"

definition ima_ImportPublicCert ::
  "'k system_fn \<Rightarrow> string \<Rightarrow> 'k world \<Rightarrow> le_result_t \<times> 'k world" where
  "ima_ImportPublicCert system certPath w = ImportPublicCert system certPath w"

subsection \<open>The shell\<close>

text \<open>
  \<^verbatim>\<open>system(3)\<close> runs \<^verbatim>\<open>/bin/sh -c\<close> on the command line. What the specification says
  about the probes of \<open>ima_IsEnabled\<close> and about the key identifier of
  \<open>ImportPublicCert\<close> depends on how the shell reads the two command lines, so the part
  of the POSIX shell language they are written in is modelled: words separated by
  blanks, single and double quotes, \<^verbatim>\<open>$NAME\<close>, command substitution in backquotes inside
  double quotes, assignments, pipelines, \<^verbatim>\<open>&&\<close> and \<^verbatim>\<open>||\<close> lists and parenthesised
  groups. A command line that uses anything else is outside the model: the lexer and the
  interpreter return \<open>None\<close> for it.

  The lexer reads the command line character by character. A word is a list of parts: a
  literal character, an unquoted \<^verbatim>\<open>$NAME\<close>, a \<^verbatim>\<open>$NAME\<close> inside double quotes, or the
  text of a command substitution.
\<close>

datatype part = PChar char | PVar string | PQVar string | PSubst string

datatype token = TWord "part list" | AndIf | OrIf | Pipe | LParen | RParen

datatype lex_mode = Plain | SQ | DQ | Amp | Bar | Name bool string | BQ string | BQesc string

datatype lex_state = LS "token list" "part list option" lex_mode | LFail

definition name_char :: "char \<Rightarrow> bool" where
  "name_char c \<longleftrightarrow>
     c \<in> set ''abcdefghijklmnopqrstuvwxyzABCDEFGHIJKLMNOPQRSTUVWXYZ0123456789_''"

definition plain_char :: "char \<Rightarrow> bool" where
  "plain_char c \<longleftrightarrow> name_char c \<or> c \<in> set ''/.-=:,+@%''"

definition flush :: "token list \<Rightarrow> part list option \<Rightarrow> token list" where
  "flush ts cur = (case cur of None \<Rightarrow> ts | Some w \<Rightarrow> ts @ [TWord w])"

definition add :: "part list option \<Rightarrow> part \<Rightarrow> part list option" where
  "add cur p = Some (case cur of None \<Rightarrow> [p] | Some w \<Rightarrow> w @ [p])"

definition open_word :: "part list option \<Rightarrow> part list option" where
  "open_word cur = Some (case cur of None \<Rightarrow> [] | Some w \<Rightarrow> w)"

definition lex_plain :: "token list \<Rightarrow> part list option \<Rightarrow> char \<Rightarrow> lex_state" where
  "lex_plain ts cur c =
     (if c = CHR '' '' then LS (flush ts cur) None Plain
      else if c = CHR ''&'' then LS (flush ts cur) None Amp
      else if c = CHR ''|'' then LS (flush ts cur) None Bar
      else if c = CHR ''('' then LS (flush ts cur @ [LParen]) None Plain
      else if c = CHR '')'' then LS (flush ts cur @ [RParen]) None Plain
      else if c = CHR 0x27 then LS ts (open_word cur) SQ
      else if c = CHR 0x22 then LS ts (open_word cur) DQ
      else if c = CHR ''$'' then LS ts cur (Name False [])
      else if plain_char c then LS ts (add cur (PChar c)) Plain
      else LFail)"

definition lex_dq :: "token list \<Rightarrow> part list option \<Rightarrow> char \<Rightarrow> lex_state" where
  "lex_dq ts cur c =
     (if c = CHR 0x22 then LS ts cur Plain
      else if c = CHR ''$'' then LS ts cur (Name True [])
      else if c = CHR 0x60 then LS ts cur (BQ [])
      else if c = CHR 0x5C then LFail
      else LS ts (add cur (PChar c)) DQ)"

fun lex_step :: "lex_state \<Rightarrow> char \<Rightarrow> lex_state" where
  "lex_step LFail c = LFail"
| "lex_step (LS ts cur Plain) c = lex_plain ts cur c"
| "lex_step (LS ts cur SQ) c =
     (if c = CHR 0x27 then LS ts cur Plain else LS ts (add cur (PChar c)) SQ)"
| "lex_step (LS ts cur DQ) c = lex_dq ts cur c"
| "lex_step (LS ts cur Amp) c =
     (if c = CHR ''&'' then LS (ts @ [AndIf]) None Plain else LFail)"
| "lex_step (LS ts cur Bar) c =
     (if c = CHR ''|'' then LS (ts @ [OrIf]) None Plain else lex_plain (ts @ [Pipe]) None c)"
| "lex_step (LS ts cur (Name q n)) c =
     (if name_char c then LS ts cur (Name q (n @ [c]))
      else if n = [] then LFail
      else if q then lex_dq ts (add cur (PQVar n)) c
      else lex_plain ts (add cur (PVar n)) c)"
| "lex_step (LS ts cur (BQ b)) c =
     (if c = CHR 0x60 then LS ts (add cur (PSubst b)) DQ
      else if c = CHR 0x5C then LS ts cur (BQesc b)
      else LS ts cur (BQ (b @ [c])))"
| "lex_step (LS ts cur (BQesc b)) c =
     (if c = CHR ''$'' \<or> c = CHR 0x60 \<or> c = CHR 0x5C then LFail
      else LS ts cur (BQ (b @ [CHR 0x5C, c])))"

definition lex_finish :: "lex_state \<Rightarrow> token list option" where
  "lex_finish s =
     (case s of
        LS ts cur Plain \<Rightarrow> Some (flush ts cur)
      | LS ts cur (Name False n) \<Rightarrow> if n = [] then None else Some (flush ts (add cur (PVar n)))
      | _ \<Rightarrow> None)"

definition lex :: "string \<Rightarrow> token list option" where
  "lex cmd = lex_finish (foldl lex_step (LS [] None Plain) cmd)"

text \<open>
  A program the shell starts takes its arguments, the lines of its standard input and
  the machine, and gives its exit status, the lines it prints and the machine it leaves.
  Expansion: a word that is a single unquoted \<^verbatim>\<open>$NAME\<close> is split at blanks into zero or
  more fields; any other word is one field. A command substitution runs one simple
  command of literal words and yields what it prints; it may stand in the value of an
  assignment, where the status of the assignment is its status.
\<close>

type_synonym 'm exec_fn = "string list \<Rightarrow> string list \<Rightarrow> 'm \<Rightarrow> 8 word \<times> string list \<times> 'm"

definition lookup :: "(string \<times> string) list \<Rightarrow> string \<Rightarrow> string" where
  "lookup vs n = (case map_of vs n of None \<Rightarrow> [] | Some v \<Rightarrow> v)"

fun literal :: "part list \<Rightarrow> string option" where
  "literal [] = Some []"
| "literal (PChar c # ps) = map_option (Cons c) (literal ps)"
| "literal (p # ps) = None"

fun argv_of :: "token list \<Rightarrow> string list option" where
  "argv_of [] = Some []"
| "argv_of (TWord w # ts) =
     (case literal w of
        None \<Rightarrow> None
      | Some a \<Rightarrow> map_option (Cons a) (argv_of ts))"
| "argv_of (t # ts) = None"

fun join_lines :: "string list \<Rightarrow> string" where
  "join_lines [] = []"
| "join_lines [l] = l"
| "join_lines (l # ls) = l @ [CHR 0x0A] @ join_lines ls"

definition subst :: "'m exec_fn \<Rightarrow> string \<Rightarrow> 'm \<Rightarrow> (8 word \<times> string list \<times> 'm) option" where
  "subst ex body m =
     (case lex body of
        None \<Rightarrow> None
      | Some ts \<Rightarrow>
          (case argv_of ts of
             None \<Rightarrow> None
           | Some argv \<Rightarrow> if argv = [] then None else Some (ex argv [] m)))"

fun expand_value ::
  "'m exec_fn \<Rightarrow> (string \<times> string) list \<Rightarrow> part list \<Rightarrow> string \<Rightarrow> 'm \<Rightarrow> 8 word
     \<Rightarrow> (string \<times> 'm \<times> 8 word) option" where
  "expand_value ex vs [] acc m st = Some (acc, m, st)"
| "expand_value ex vs (PChar c # ps) acc m st = expand_value ex vs ps (acc @ [c]) m st"
| "expand_value ex vs (PVar n # ps) acc m st = expand_value ex vs ps (acc @ lookup vs n) m st"
| "expand_value ex vs (PQVar n # ps) acc m st = expand_value ex vs ps (acc @ lookup vs n) m st"
| "expand_value ex vs (PSubst body # ps) acc m st =
     (case subst ex body m of
        None \<Rightarrow> None
      | Some (s, out, m1) \<Rightarrow> expand_value ex vs ps (acc @ join_lines out) m1 s)"

fun split_ws :: "string \<Rightarrow> string \<Rightarrow> string list" where
  "split_ws [] cur = (if cur = [] then [] else [cur])"
| "split_ws (c # cs) cur =
     (if c = CHR '' '' \<or> c = CHR 0x0A
      then (if cur = [] then split_ws cs [] else cur # split_ws cs [])
      else split_ws cs (cur @ [c]))"

fun field :: "(string \<times> string) list \<Rightarrow> part list \<Rightarrow> string option" where
  "field vs [] = Some []"
| "field vs (PChar c # ps) = map_option (Cons c) (field vs ps)"
| "field vs (PQVar n # ps) = map_option (append (lookup vs n)) (field vs ps)"
| "field vs (PVar n # ps) =
     (if lookup vs n = [] \<or> split_ws (lookup vs n) [] \<noteq> [lookup vs n] then None
      else map_option (append (lookup vs n)) (field vs ps))"
| "field vs (PSubst body # ps) = None"

fun expand_word :: "(string \<times> string) list \<Rightarrow> part list \<Rightarrow> string list option" where
  "expand_word vs [PVar n] = Some (split_ws (lookup vs n) [])"
| "expand_word vs w = map_option (\<lambda>f. [f]) (field vs w)"

fun expand_words :: "(string \<times> string) list \<Rightarrow> part list list \<Rightarrow> string list option" where
  "expand_words vs [] = Some []"
| "expand_words vs (w # ws) =
     (case expand_word vs w of
        None \<Rightarrow> None
      | Some fs \<Rightarrow> map_option (append fs) (expand_words vs ws))"

fun split_assign :: "part list \<Rightarrow> string \<Rightarrow> (string \<times> part list) option" where
  "split_assign [] n = None"
| "split_assign (PChar c # ps) n =
     (if c = CHR ''='' then (if n = [] then None else Some (n, ps))
      else if name_char c then split_assign ps (n @ [c])
      else None)"
| "split_assign (p # ps) n = None"

text \<open>
  The interpreter reads the tokens from left to right. \<open>sh_status\<close> is \<^verbatim>\<open>$?\<close>. After
  \<^verbatim>\<open>&&\<close> the next pipeline is skipped when the status is not zero, after \<^verbatim>\<open>||\<close> when it
  is zero; a skipped command leaves the status as it is, which gives the two operators
  equal precedence and association to the left. The status of a pipeline is that of its
  last command, whose standard input is what the command before it printed. A group in
  parentheses runs with a copy of the variables; \<open>sh_dead\<close> says that a group around the
  current position is skipped.
\<close>

record 'm sh_state =
  sh_machine :: 'm
  sh_vars :: "(string \<times> string) list"
  sh_status :: "8 word"
  sh_words :: "part list list"
  sh_stdin :: "string list"
  sh_piped :: bool
  sh_skip :: bool
  sh_dead :: bool
  sh_ready :: bool
  sh_stack :: "(bool \<times> bool \<times> (string \<times> string) list) list"

definition run_simple :: "'m exec_fn \<Rightarrow> 'm sh_state \<Rightarrow> ('m sh_state \<times> string list) option" where
  "run_simple ex s =
     (if sh_dead s \<or> sh_skip s then Some (s\<lparr>sh_words := [], sh_stdin := [], sh_piped := False\<rparr>, [])
      else
        (case sh_words s of
           [] \<Rightarrow> None
         | w # ws \<Rightarrow>
             (case split_assign w [] of
                Some (n, val) \<Rightarrow>
                  if ws \<noteq> [] then None
                  else
                    (case expand_value ex (sh_vars s) val [] (sh_machine s) 0 of
                       None \<Rightarrow> None
                     | Some (text, m1, st) \<Rightarrow>
                         Some (s\<lparr>sh_machine := m1, sh_vars := (n, text) # sh_vars s, sh_status := st,
                                 sh_words := [], sh_stdin := [], sh_piped := False\<rparr>, []))
              | None \<Rightarrow>
                  (case expand_words (sh_vars s) (w # ws) of
                     None \<Rightarrow> None
                   | Some [] \<Rightarrow> None
                   | Some (a # as) \<Rightarrow>
                       (case ex (a # as) (sh_stdin s) (sh_machine s) of
                          (st, out, m1) \<Rightarrow>
                            Some (s\<lparr>sh_machine := m1, sh_status := st, sh_words := [], sh_stdin := [],
                                    sh_piped := False\<rparr>, out))))))"

definition finish :: "'m exec_fn \<Rightarrow> 'm sh_state \<Rightarrow> 'm sh_state option" where
  "finish ex s =
     (if sh_words s = [] then (if sh_ready s then Some (s\<lparr>sh_ready := False\<rparr>) else None)
      else map_option fst (run_simple ex s))"

fun sh_token :: "'m exec_fn \<Rightarrow> 'm sh_state \<Rightarrow> token \<Rightarrow> 'm sh_state option" where
  "sh_token ex s (TWord w) = (if sh_ready s then None else Some (s\<lparr>sh_words := sh_words s @ [w]\<rparr>))"
| "sh_token ex s AndIf =
     (case finish ex s of None \<Rightarrow> None | Some s1 \<Rightarrow> Some (s1\<lparr>sh_skip := (sh_status s1 \<noteq> 0)\<rparr>))"
| "sh_token ex s OrIf =
     (case finish ex s of None \<Rightarrow> None | Some s1 \<Rightarrow> Some (s1\<lparr>sh_skip := (sh_status s1 = 0)\<rparr>))"
| "sh_token ex s Pipe =
     (if sh_words s = [] then None
      else (case run_simple ex s of
              None \<Rightarrow> None
            | Some (s1, out) \<Rightarrow> Some (s1\<lparr>sh_stdin := out, sh_piped := True\<rparr>)))"
| "sh_token ex s LParen =
     (if sh_words s \<noteq> [] \<or> sh_ready s \<or> sh_piped s then None
      else Some (s\<lparr>sh_stack := (sh_skip s, sh_dead s, sh_vars s) # sh_stack s,
                   sh_dead := (sh_dead s \<or> sh_skip s), sh_skip := False\<rparr>))"
| "sh_token ex s RParen =
     (case sh_stack s of
        [] \<Rightarrow> None
      | (sk, dd, vs) # st \<Rightarrow>
          (case finish ex s of
             None \<Rightarrow> None
           | Some s1 \<Rightarrow>
               Some (s1\<lparr>sh_stack := st, sh_skip := sk, sh_dead := dd, sh_vars := vs, sh_ready := True\<rparr>)))"

fun sh_tokens :: "'m exec_fn \<Rightarrow> 'm sh_state \<Rightarrow> token list \<Rightarrow> 'm sh_state option" where
  "sh_tokens ex s [] = Some s"
| "sh_tokens ex s (t # ts) =
     (case sh_token ex s t of None \<Rightarrow> None | Some s1 \<Rightarrow> sh_tokens ex s1 ts)"

definition sh_init :: "'m \<Rightarrow> 'm sh_state" where
  "sh_init m =
     \<lparr>sh_machine = m, sh_vars = [], sh_status = 0, sh_words = [], sh_stdin = [], sh_piped = False, sh_skip = False,
      sh_dead = False, sh_ready = False, sh_stack = []\<rparr>"

definition sh_run :: "'m exec_fn \<Rightarrow> string \<Rightarrow> 'm \<Rightarrow> (8 word \<times> 'm) option" where
  "sh_run ex cmd m =
     (case lex cmd of
        None \<Rightarrow> None
      | Some ts \<Rightarrow>
          if ts = [] then Some (0, m)
          else
            (case sh_tokens ex (sh_init m) ts of
               None \<Rightarrow> None
             | Some s \<Rightarrow>
                 if sh_stack s \<noteq> [] then None
                 else (case finish ex s of
                         None \<Rightarrow> None
                       | Some s1 \<Rightarrow> Some (sh_status s1, sh_machine s1))))"

text \<open>
  \<^verbatim>\<open>system(3)\<close> on a machine with this shell: when the shell cannot be started it returns
  \<open>-1\<close> and nothing has run; otherwise the status is that of a normal exit with the
  status the shell ends with. For a command line outside the model the behaviour is left
  open, as the parameter \<open>other\<close>.
\<close>

definition sh_system :: "bool \<Rightarrow> 'm exec_fn \<Rightarrow> 'm system_fn \<Rightarrow> 'm system_fn" where
  "sh_system spawns ex other cmd m =
     (if \<not> spawns then (wait_status SpawnFailed, m)
      else (case sh_run ex cmd m of
              Some (st, m1) \<Rightarrow> (wait_status (Exited st), m1)
            | None \<Rightarrow> other cmd m))"

subsection \<open>The machine and the programs the two command lines start\<close>

text \<open>
  The machine, reduced to what the two command lines read and change: the lines of the
  decompressed \<^verbatim>\<open>/proc/config.gz\<close> (\<open>None\<close> when the file is missing), the line of
  \<^verbatim>\<open>/proc/cmdline\<close>, the lines of \<^verbatim>\<open>/proc/mounts\<close>, the lines of \<^verbatim>\<open>/proc/keys\<close>, each
  with its first field (the serial number) written in decimal, and the imports
  \<^verbatim>\<open>evmctl\<close> has carried out with the arguments it was given.

  The programs: \<^verbatim>\<open>zcat\<close> and \<^verbatim>\<open>cat\<close> print a file; \<^verbatim>\<open>grep\<close> selects the lines that
  contain its pattern (the patterns used have no regular expression operator) and returns
  0 when it selects a line and 1 when it selects none; the \<^verbatim>\<open>awk\<close> program prints, in
  decimal and without separator, the serial number of every line that contains \<^verbatim>\<open>.ima\<close>
  and returns 0 whether or not a line matches. What \<^verbatim>\<open>mount\<close> and \<^verbatim>\<open>evmctl import\<close>
  return is not decided by the source; their exit statuses, and whether the shell can be
  started, are parameters. Any other program is not found (status 127).
\<close>

fun contains :: "string \<Rightarrow> string \<Rightarrow> bool" where
  "contains pat [] = (pat = [])"
| "contains pat (c # cs) = (take (length pat) (c # cs) = pat \<or> contains pat cs)"

record host =
  proc_config :: "string list option"
  proc_cmdline :: string
  proc_mounts :: "string list"
  proc_keys :: "(string \<times> string) list"
  keyring :: "string list list"

record tools =
  sh_spawns :: bool
  mount_status :: "8 word"
  evmctl_import_status :: "string list \<Rightarrow> 8 word"

definition awk_program :: string where
  \<open>awk_program = ''/'' @ [CHR 0x5C] @ ''.ima/ { printf "%d", "0x"$1; }''\<close>

definition grep_lines :: "string \<Rightarrow> string list \<Rightarrow> 8 word \<times> string list" where
  "grep_lines pat ls = (if filter (contains pat) ls = [] then 1 else 0, filter (contains pat) ls)"

definition utilities :: "tools \<Rightarrow> host exec_fn" where
  "utilities t argv input m =
     (if argv = [''zcat'', ''/proc/config.gz'']
      then (case proc_config m of None \<Rightarrow> (1, [], m) | Some ls \<Rightarrow> (0, ls, m))
      else if argv = [''cat'', ''/proc/cmdline''] then (0, [proc_cmdline m], m)
      else if length argv = 2 \<and> argv ! 0 = ''grep''
      then (fst (grep_lines (argv ! 1) input), snd (grep_lines (argv ! 1) input), m)
      else if length argv = 4 \<and> argv ! 0 = ''grep'' \<and> argv ! 1 = ''-q'' \<and>
              argv ! 3 = ''/proc/mounts''
      then (fst (grep_lines (argv ! 2) (proc_mounts m)), [], m)
      else if length argv = 6 \<and>
              take 5 argv = [''mount'', ''-n'', ''-t'', ''securityfs'', ''securityfs'']
      then (mount_status t, [],
            if mount_status t = 0
            then m\<lparr>proc_mounts :=
                     proc_mounts m @ [''securityfs '' @ argv ! 5 @ '' securityfs rw 0 0'']\<rparr>
            else m)
      else if argv = [''awk'', awk_program, ''/proc/keys'']
      then (0, (let ids = map snd (filter (\<lambda>l. contains ''.ima'' (fst l)) (proc_keys m))
                in if ids = [] then [] else [concat ids]), m)
      else if 2 \<le> length argv \<and> take 2 argv = [''/usr/bin/evmctl'', ''import'']
      then (evmctl_import_status t (drop 2 argv), [],
            if evmctl_import_status t (drop 2 argv) = 0
            then m\<lparr>keyring := keyring m @ [drop 2 argv]\<rparr> else m)
      else (127, [], m))"

text \<open>
  What the two probes of \<open>ima_IsEnabled\<close> look for, whether the security filesystem is
  listed as mounted, and the identifiers the key listing yields.
\<close>

definition config_probe :: "host \<Rightarrow> bool" where
  "config_probe m \<longleftrightarrow>
     (case proc_config m of
        None \<Rightarrow> False
      | Some ls \<Rightarrow> filter (contains ''CONFIG_IMA=y'') ls \<noteq> [])"

definition cmdline_probe :: "host \<Rightarrow> bool" where
  "cmdline_probe m \<longleftrightarrow> contains ''ima_appraise=enforce'' (proc_cmdline m)"



subsection \<open>Concrete machines, tools and trees\<close>

text \<open>
  Inputs on which the theorems below are run: a world with nothing issued or logged yet;
  tools that always exit with a given code, are always killed by a given signal, cannot
  be started, reject one command line or accept only one; the tree
  \<^verbatim>\<open>/root/{a.bin, b.bin, cert.pem}\<close> on a disk that holds nothing else; a tree whose
  directory \<^verbatim>\<open>private\<close> cannot be read and holds \<^verbatim>\<open>secret.bin\<close>; a disk whose only
  directory, \<^verbatim>\<open>/sealed\<close>, cannot be read; a traversal with an
  unreadable directory, a file that cannot be examined and a symbolic link; a path longer
  than the command buffer; and machines and tools for the two command lines.
\<close>

definition empty_world :: "'k \<Rightarrow> 'k world" where
  "empty_world k = \<lparr>ext = k, trace = [], logs = []\<rparr>"

definition tool_exits :: "8 word \<Rightarrow> string \<Rightarrow> 32 word" where
  "tool_exits code cmd = wait_status (Exited code)"

definition tool_killed :: "nat \<Rightarrow> string \<Rightarrow> 32 word" where
  "tool_killed sig cmd = wait_status (Signaled sig False)"

definition tool_unspawned :: "string \<Rightarrow> 32 word" where
  "tool_unspawned cmd = wait_status SpawnFailed"

definition tool_rejecting :: "string \<Rightarrow> string \<Rightarrow> 32 word" where
  "tool_rejecting bad cmd = wait_status (Exited (if cmd = bad then 1 else 0))"


definition example_entries :: "FTSENT list" where
  "example_entries =
     [\<lparr>fts_name = ''root'', fts_accpath = ''/root'', fts_path = ''/root'', fts_info = FTS_D\<rparr>,
      \<lparr>fts_name = ''a.bin'', fts_accpath = ''a.bin'', fts_path = ''/root/a.bin'',
        fts_info = FTS_F\<rparr>,
      \<lparr>fts_name = ''b.bin'', fts_accpath = ''b.bin'', fts_path = ''/root/b.bin'',
        fts_info = FTS_F\<rparr>,
      \<lparr>fts_name = ''cert.pem'', fts_accpath = ''cert.pem'', fts_path = ''/root/cert.pem'',
        fts_info = FTS_F\<rparr>,
      \<lparr>fts_name = ''root'', fts_accpath = ''/root'', fts_path = ''/root'', fts_info = FTS_DP\<rparr>]"

definition example_fs :: "string \<Rightarrow> node option" where
  "example_fs path =
     (if path = ''/root''
      then Some (Dir True [(''a.bin'', File), (''b.bin'', File), (''cert.pem'', File)])
      else None)"

definition example_tree :: fts_open_fn where
  "example_tree = libc_fts_open example_fs"



definition sealed_fs :: "string \<Rightarrow> node option" where
  "sealed_fs path =
     (if path = ''/sealed'' then Some (Dir False [(''a.bin'', File)]) else None)"


definition long_path :: string where
  "long_path = replicate 5000 (CHR ''x'')"

definition example_host :: "bool \<Rightarrow> bool \<Rightarrow> host" where
  "example_host config enforce =
     \<lparr>proc_config =
        Some (if config then [''CONFIG_INTEGRITY=y'', ''CONFIG_IMA=y'']
              else [''CONFIG_INTEGRITY=y'', ''# CONFIG_IMA is not set'']),
      proc_cmdline =
        (if enforce then ''console=ttyS0 ima_appraise=enforce rootwait''
         else ''console=ttyS0 rootwait''),
      proc_mounts = [''securityfs /sys/kernel/security securityfs rw 0 0''],
      proc_keys = [(''2d0c5a31 I------     1 perm 1f0b0000     0     0 keyring   .evm: empty'',
                    ''755784241'')],
      keyring = []\<rparr>"

definition import_accepting :: "string list \<Rightarrow> 8 word" where
  "import_accepting args = 0"


definition tools_accepting :: tools where
  "tools_accepting =
     \<lparr>sh_spawns = True, mount_status = 0, evmctl_import_status = import_accepting\<rparr>"


definition no_shell :: tools where
  "no_shell = \<lparr>sh_spawns = False, mount_status = 0, evmctl_import_status = import_accepting\<rparr>"

definition no_other :: "host system_fn" where
  "no_other cmd m = (wait_status (Exited 2), m)"

section \<open>Properties\<close>

subsection \<open>Wait statuses\<close>

lemma c7f: "(0x7f :: 32 word) = mask 7" by (simp add: mask_eq_exp_minus_1)
lemma cff00: "(0xff00 :: 32 word) = push_bit 8 (mask 8)" by (simp add: mask_eq_exp_minus_1 push_bit_eq_mult)

lemma WIFEXITED_take_bit: "WIFEXITED status \<longleftrightarrow> take_bit 7 status = 0"
  unfolding WIFEXITED_def c7f by (simp add: take_bit_eq_mask)

lemma WEXITSTATUS_take_bit: "WEXITSTATUS status = take_bit 8 (drop_bit 8 status)"
  unfolding WEXITSTATUS_def cff00
  by (rule bit_word_eqI) (auto simp: bit_simps)

lemma WEXITSTATUS_Exited: "WEXITSTATUS (wait_status (Exited c)) = ucast c"
  unfolding WEXITSTATUS_take_bit wait_status.simps
  by (rule bit_word_eqI) (auto simp: bit_simps dest: bit_imp_le_length)

lemma WIFEXITED_Exited: "WIFEXITED (wait_status (Exited c))"
  unfolding WIFEXITED_take_bit wait_status.simps
  by (rule bit_word_eqI) (auto simp: bit_simps)

lemma WIFEXITED_SpawnFailed: "\<not> WIFEXITED (wait_status SpawnFailed)"
  by (simp add: WIFEXITED_def)

lemma WEXITSTATUS_SpawnFailed: "WEXITSTATUS (wait_status SpawnFailed) = 255"
  by (simp add: WEXITSTATUS_def)

lemma core_flag_low: "take_bit 7 (if core then 0x80 else 0 :: 32 word) = 0"
  by (simp add: take_bit_eq_mod)

lemma core_flag_high: "drop_bit 8 (if core then 0x80 else 0 :: 32 word) = 0"
  by (simp add: drop_bit_eq_div)

lemma take_bit7_Signaled:
  assumes "sig < 127"
  shows "take_bit 7 (wait_status (Signaled sig core)) = word_of_nat sig"
proof -
  have "take_bit 7 sig = sig"
    using assms by (simp add: take_bit_nat_eq_self)
  then have "take_bit 7 (word_of_nat sig :: 32 word) = word_of_nat sig"
    by (simp add: take_bit_of_nat)
  then show ?thesis
    unfolding wait_status.simps take_bit_or core_flag_low by simp
qed

lemma drop_bit8_word_of_nat:
  assumes "sig < 127"
  shows "drop_bit 8 (word_of_nat sig :: 32 word) = 0"
proof -
  have u: "unat (word_of_nat sig :: 32 word) = sig"
    using assms by (simp add: unat_of_nat)
  have "unat (drop_bit 8 (word_of_nat sig :: 32 word)) = 0"
    unfolding unat_drop_bit_eq u using assms by (simp add: drop_bit_eq_div)
  then show ?thesis by (simp add: unat_eq_0)
qed

lemma WIFEXITED_Signaled:
  assumes "0 < sig" "sig < 127"
  shows "\<not> WIFEXITED (wait_status (Signaled sig core))"
proof -
  have "word_of_nat sig \<noteq> (0 :: 32 word)"
    using assms by (intro of_nat_neq_0) simp_all
  then show ?thesis
    unfolding WIFEXITED_take_bit take_bit7_Signaled [OF assms(2)] .
qed

lemma WEXITSTATUS_Signaled:
  assumes "sig < 127"
  shows "WEXITSTATUS (wait_status (Signaled sig core)) = 0"
  unfolding WEXITSTATUS_take_bit wait_status.simps drop_bit_or core_flag_high
    drop_bit8_word_of_nat [OF assms] by simp

lemma ucast_eq_0_iff: "(ucast (c :: 8 word) = (0 :: 32 word)) \<longleftrightarrow> c = 0"
proof
  assume h: "ucast c = (0 :: 32 word)"
  show "c = 0"
  proof (rule bit_word_eqI)
    fix n assume n: "n < LENGTH(8)"
    from h have "\<not> bit (ucast c :: 32 word) n" by simp
    with n show "bit c n \<longleftrightarrow> bit (0 :: 8 word) n" by (simp add: bit_simps)
  qed
qed simp

lemma exit_zero_Exited: "exit_zero (wait_status (Exited c)) \<longleftrightarrow> c = 0"
  unfolding exit_zero_def WEXITSTATUS_Exited using WIFEXITED_Exited [of c] ucast_eq_0_iff [of c]
  by auto

lemma exit_zero_wait_status:
  assumes "valid_outcome t"
  shows "exit_zero (wait_status t) \<longleftrightarrow> t = Exited 0"
proof (cases t)
  case (Exited c)
  then show ?thesis by (simp only: exit_zero_Exited outcome.inject)
next
  case (Signaled sig core)
  with assms have "\<not> WIFEXITED (wait_status t)"
    using WIFEXITED_Signaled [of sig core] by simp
  with Signaled show ?thesis
    by (simp add: exit_zero_def)
next
  case SpawnFailed
  then show ?thesis
    using WIFEXITED_SpawnFailed by (simp add: exit_zero_def)
qed

lemma sint_ucast8: "sint (ucast (c :: 8 word) :: 32 word) = uint c"
proof -
  have "uint c < 2 ^ 8" using uint_lt2p [of c] by simp
  then have "uint c < 2 ^ 31" by simp
  moreover have "- (2 ^ 31) \<le> uint c"
  proof -
    have "- (2 ^ 31) \<le> (0 :: int)" by simp
    also have "0 \<le> uint c" by simp
    finally show ?thesis .
  qed
  ultimately have "signed_take_bit 31 (uint c) = uint c"
    by (simp add: signed_take_bit_int_eq_self)
  then show ?thesis by (simp add: signed_ucast_eq)
qed

lemma exit_zero_SpawnFailed: "\<not> exit_zero (wait_status SpawnFailed)"
  using WIFEXITED_SpawnFailed by (simp add: exit_zero_def)

lemma reported_status:
  assumes "valid_outcome t"
  shows "sint (WEXITSTATUS (wait_status t)) =
         (case t of Exited code \<Rightarrow> uint code | Signaled sig core \<Rightarrow> 0 | SpawnFailed \<Rightarrow> 255)"
proof (cases t)
  case (Exited c)
  then show ?thesis by (simp only: WEXITSTATUS_Exited sint_ucast8 outcome.case)
next
  case (Signaled sig core)
  with assms have "WEXITSTATUS (wait_status t) = 0"
    using WEXITSTATUS_Signaled [of sig core] by simp
  with Signaled show ?thesis by simp
next
  case SpawnFailed
  then show ?thesis by (simp only: WEXITSTATUS_SpawnFailed outcome.case) simp
qed

subsection \<open>Worlds and VerifyFile\<close>

lemma LE_DEBUG_simps [simp]:
  "ext (LE_DEBUG fmt args w) = ext w"
  "trace (LE_DEBUG fmt args w) = trace w"
  "logs (LE_DEBUG fmt args w) = logs w @ [(DEBUG, fmt, args)]"
  by (simp_all add: LE_DEBUG_def)

lemma LE_ERROR_simps [simp]:
  "ext (LE_ERROR fmt args w) = ext w"
  "trace (LE_ERROR fmt args w) = trace w"
  "logs (LE_ERROR fmt args w) = logs w @ [(ERROR, fmt, args)]"
  by (simp_all add: LE_ERROR_def)

lemma LE_CRIT_simps [simp]:
  "ext (LE_CRIT fmt args w) = ext w"
  "trace (LE_CRIT fmt args w) = trace w"
  "logs (LE_CRIT fmt args w) = logs w @ [(CRIT, fmt, args)]"
  by (simp_all add: LE_CRIT_def)

lemma call_system_eq:
  "call_system system cmd w =
     (fst (system cmd (ext w)),
      w\<lparr>ext := snd (system cmd (ext w)),
        trace := trace w @ [(cmd, fst (system cmd (ext w)))]\<rparr>)"
  by (simp add: call_system_def split: prod.split)

lemma VerifyFile_eq:
  "VerifyFile system filePath certPath w =
     (let cmd = verify_cmd filePath certPath;
          exitCode = fst (system cmd (ext w));
          w2 = (LE_DEBUG ''Verify file command: %s'' [S cmd] w)
                 \<lparr>ext := snd (system cmd (ext w)), trace := trace w @ [(cmd, exitCode)]\<rparr>
      in if exit_zero exitCode
         then (LE_OK, LE_DEBUG ''Verified file: '%s' successfully'' [S filePath] w2)
         else (LE_FAULT,
               LE_ERROR ''Failed to verify file '%s' with certificate '%s', exitCode: %d''
                 [S filePath, S certPath, D (sint (WEXITSTATUS exitCode))] w2))"
  by (simp add: VerifyFile_def call_system_eq Let_def exit_zero_def)

lemma VerifyFile_fst:
  "fst (VerifyFile system filePath certPath w) =
     (if exit_zero (fst (system (verify_cmd filePath certPath) (ext w))) then LE_OK else LE_FAULT)"
  by (simp add: VerifyFile_eq Let_def)


lemma VerifyFile_trace:
  "trace (snd (VerifyFile system filePath certPath w)) =
     trace w @ [(verify_cmd filePath certPath, fst (system (verify_cmd filePath certPath) (ext w)))]"
  by (simp add: VerifyFile_eq Let_def)

lemma VerifyFile_logs:
  "logs (snd (VerifyFile system filePath certPath w)) =
     logs w @ [(DEBUG, ''Verify file command: %s'', [S (verify_cmd filePath certPath)]),
       (let exitCode = fst (system (verify_cmd filePath certPath) (ext w))
        in if exit_zero exitCode
           then (DEBUG, ''Verified file: '%s' successfully'', [S filePath])
           else (ERROR, ''Failed to verify file '%s' with certificate '%s', exitCode: %d'',
                 [S filePath, S certPath, D (sint (WEXITSTATUS exitCode))]))]"
  by (simp add: VerifyFile_eq Let_def)

subsection \<open>The loop\<close>

lemma debug_entry_simps [simp]:
  "ext (debug_entry e w) = ext w"
  "trace (debug_entry e w) = trace w"
  by (simp_all add: debug_entry_def)

lemma VerifyDir_loop_skip:
  assumes "\<not> eligible PUB e"
  shows "VerifyDir_loop system PUB certPath (e # rest) w =
    VerifyDir_loop system PUB certPath rest (debug_entry e w)"
  using assms by (cases "fts_info e") (simp_all add: eligible_def Let_def)

lemma VerifyDir_loop_eligible:
  assumes "eligible PUB e"
  shows "VerifyDir_loop system PUB certPath (e # rest) w =
    (let w2 = snd (VerifyFile system (fts_accpath e) certPath (debug_entry e w))
     in if fst (VerifyFile system (fts_accpath e) certPath (debug_entry e w)) = LE_OK
        then VerifyDir_loop system PUB certPath rest w2
        else (LE_FAULT,
              LE_CRIT (''Failed to verify file '%s' with public certificate '%s'' @ [CHR 0x27])
                [S (fts_accpath e), S certPath] w2))"
  using assms by (auto simp: eligible_def Let_def split: prod.split)

declare VerifyDir_loop.simps(2) [simp del]

lemma take_prefix_snoc:
  assumes "take (length (xs @ [x])) ys = xs @ [x]"
  shows "take (length xs) ys = xs"
proof -
  have "take (length xs) ys = take (length xs) (take (length (xs @ [x])) ys)"
    by (simp add: take_take)
  also have "\<dots> = take (length xs) (xs @ [x])"
    by (simp only: assms)
  finally show ?thesis by simp
qed

lemma VerifyDir_loop_trace_grows:
  "take (length (trace w)) (trace (snd (VerifyDir_loop system PUB certPath es w))) = trace w"
proof (induction es arbitrary: w)
  case Nil
  then show ?case by simp
next
  case (Cons e es)
  show ?case
  proof (cases "eligible PUB e")
    case False
    then show ?thesis
      using Cons.IH [of "debug_entry e w"] by (simp add: VerifyDir_loop_skip)
  next
    case True
    let ?w2 = "snd (VerifyFile system (fts_accpath e) certPath (debug_entry e w))"
    have t2: "trace ?w2 = trace w @ [(verify_cmd (fts_accpath e) certPath,
        fst (system (verify_cmd (fts_accpath e) certPath) (ext w)))]"
      by (simp add: VerifyFile_trace)
    have "take (length (trace ?w2)) (trace (snd (VerifyDir_loop system PUB certPath es ?w2))) = trace ?w2"
      by (rule Cons.IH)
    then have "take (length (trace w)) (trace (snd (VerifyDir_loop system PUB certPath es ?w2))) = trace w"
      unfolding t2 by (rule take_prefix_snoc)
    then show ?thesis
      using True by (simp add: VerifyDir_loop_eligible Let_def t2)
  qed
qed

lemma trace_issued:
  "trace (snd (VerifyDir_loop system PUB certPath es w)) =
     trace w @ issued w (snd (VerifyDir_loop system PUB certPath es w))"
proof -
  let ?t = "trace (snd (VerifyDir_loop system PUB certPath es w))"
  have "?t = take (length (trace w)) ?t @ drop (length (trace w)) ?t"
    by simp
  then show ?thesis
    unfolding issued_def VerifyDir_loop_trace_grows .
qed

lemma issued_Nil: "issued w (snd (VerifyDir_loop system PUB certPath [] w)) = []"
  by (simp add: issued_def)

lemma issued_skip:
  assumes "\<not> eligible PUB e"
  shows "issued w (snd (VerifyDir_loop system PUB certPath (e # es) w)) =
         issued (debug_entry e w) (snd (VerifyDir_loop system PUB certPath es (debug_entry e w)))"
  using assms by (simp add: VerifyDir_loop_skip issued_def)

lemma issued_eligible:
  assumes "eligible PUB e"
  shows "issued w (snd (VerifyDir_loop system PUB certPath (e # es) w)) =
    (let w2 = snd (VerifyFile system (fts_accpath e) certPath (debug_entry e w));
         cmd = verify_cmd (fts_accpath e) certPath;
         exitCode = fst (system cmd (ext w))
     in (cmd, exitCode) #
        (if exit_zero exitCode then issued w2 (snd (VerifyDir_loop system PUB certPath es w2)) else []))"
proof -
  let ?w2 = "snd (VerifyFile system (fts_accpath e) certPath (debug_entry e w))"
  let ?cmd = "verify_cmd (fts_accpath e) certPath"
  let ?st = "fst (system ?cmd (ext w))"
  have t2: "trace ?w2 = trace w @ [(?cmd, ?st)]"
    by (simp add: VerifyFile_trace)
  show ?thesis
  proof (cases "exit_zero ?st")
    case False
    then show ?thesis
      using assms by (simp add: VerifyDir_loop_eligible Let_def VerifyFile_fst t2 issued_def)
  next
    case True
    define X where "X = issued ?w2 (snd (VerifyDir_loop system PUB certPath es ?w2))"
    have "trace (snd (VerifyDir_loop system PUB certPath es ?w2)) = trace w @ (?cmd, ?st) # X"
      using trace_issued [of system PUB certPath es ?w2] unfolding t2 X_def by simp
    then have "issued w (snd (VerifyDir_loop system PUB certPath es ?w2)) = (?cmd, ?st) # X"
      by (simp add: issued_def)
    then show ?thesis
      using assms True by (simp add: VerifyDir_loop_eligible Let_def VerifyFile_fst X_def)
  qed
qed


lemma fst_skip:
  assumes "\<not> eligible PUB e"
  shows "fst (VerifyDir_loop system PUB certPath (e # es) w) =
         fst (VerifyDir_loop system PUB certPath es (debug_entry e w))"
  using assms by (simp add: VerifyDir_loop_skip)

lemma ext_skip:
  assumes "\<not> eligible PUB e"
  shows "ext (snd (VerifyDir_loop system PUB certPath (e # es) w)) =
         ext (snd (VerifyDir_loop system PUB certPath es (debug_entry e w)))"
  using assms by (simp add: VerifyDir_loop_skip)

lemma fst_eligible:
  assumes "eligible PUB e"
  shows "fst (VerifyDir_loop system PUB certPath (e # es) w) =
    (if exit_zero (fst (system (verify_cmd (fts_accpath e) certPath) (ext w)))
     then fst (VerifyDir_loop system PUB certPath es
                 (snd (VerifyFile system (fts_accpath e) certPath (debug_entry e w))))
     else LE_FAULT)"
  using assms by (simp add: VerifyDir_loop_eligible Let_def VerifyFile_fst)


lemma issued_all_but_last_ok:
  "\<forall>(cmd, exitCode) \<in> set (butlast (issued w (snd (VerifyDir_loop system PUB certPath es w)))).
     exit_zero exitCode"
proof (induction es arbitrary: w)
  case Nil
  show ?case unfolding issued_Nil by simp
next
  case (Cons e es)
  show ?case
  proof (cases "eligible PUB e")
    case False
    show ?thesis
      unfolding issued_skip [OF False] by (rule Cons.IH)
  next
    case True
    let ?w2 = "snd (VerifyFile system (fts_accpath e) certPath (debug_entry e w))"
    show ?thesis
      unfolding issued_eligible [OF True] using Cons.IH [of ?w2]
      by (auto simp: Let_def split: if_splits)
  qed
qed

lemma fault_last_failed:
  assumes "fst (VerifyDir_loop system PUB certPath es w) = LE_FAULT"
  shows "issued w (snd (VerifyDir_loop system PUB certPath es w)) \<noteq> [] \<and>
         \<not> exit_zero (snd (last (issued w (snd (VerifyDir_loop system PUB certPath es w)))))"
  using assms
proof (induction es arbitrary: w)
  case Nil
  then show ?case by simp
next
  case (Cons e es)
  show ?case
  proof (cases "eligible PUB e")
    case False
    show ?thesis
      using Cons.prems unfolding issued_skip [OF False] fst_skip [OF False] by (rule Cons.IH)
  next
    case True
    let ?w2 = "snd (VerifyFile system (fts_accpath e) certPath (debug_entry e w))"
    show ?thesis
      using Cons.prems unfolding issued_eligible [OF True] fst_eligible [OF True]
      using Cons.IH [of ?w2]
      by (auto simp: Let_def split: if_splits)
  qed
qed

lemma fault_ignores_rest:
  assumes "fst (VerifyDir_loop system PUB certPath visited w) = LE_FAULT"
  shows "VerifyDir_loop system PUB certPath (visited @ remaining) w =
         VerifyDir_loop system PUB certPath visited w"
  using assms
proof (induction visited arbitrary: w)
  case Nil
  then show ?case by simp
next
  case (Cons e es)
  show ?case
  proof (cases "eligible PUB e")
    case False
    then show ?thesis
      using Cons.IH [of "debug_entry e w"] Cons.prems
      by (simp add: VerifyDir_loop_skip)
  next
    case True
    let ?w2 = "snd (VerifyFile system (fts_accpath e) certPath (debug_entry e w))"
    show ?thesis
      using Cons.IH [of ?w2] True Cons.prems
      by (auto simp: VerifyDir_loop_eligible Let_def split: if_splits)
  qed
qed

lemma issued_provenance:
  "\<forall>(cmd, exitCode) \<in> set (issued w (snd (VerifyDir_loop system PUB certPath es w))).
     \<exists>e \<in> set es. fts_info e = FTS_F \<and> fts_name e \<noteq> PUB \<and>
       cmd = verify_cmd (fts_accpath e) certPath"
proof (induction es arbitrary: w)
  case Nil
  show ?case unfolding issued_Nil by simp
next
  case (Cons e es)
  show ?case
  proof (cases "eligible PUB e")
    case False
    show ?thesis
      unfolding issued_skip [OF False] using Cons.IH [of "debug_entry e w"] by auto
  next
    case True
    let ?w2 = "snd (VerifyFile system (fts_accpath e) certPath (debug_entry e w))"
    show ?thesis
      unfolding issued_eligible [OF True] using Cons.IH [of ?w2] True
      by (auto simp: Let_def eligible_def split: if_splits)
  qed
qed

lemma fixed_tool_simps [simp]:
  "fst (fixed_tool tool cmd k) = tool cmd"
  "snd (fixed_tool tool cmd k) = k"
  by (simp_all add: fixed_tool_def)


subsection \<open>ImportPublicCert and ima_IsEnabled\<close>

lemma ImportPublicCert_eq:
  "ImportPublicCert system certPath w =
     (let cmd = import_cmd certPath;
          exitCode = fst (system cmd (ext w));
          w2 = (LE_DEBUG ''cmd: %s'' [S cmd] w)
                 \<lparr>ext := snd (system cmd (ext w)), trace := trace w @ [(cmd, exitCode)]\<rparr>
      in if exit_zero exitCode
         then (LE_OK, LE_DEBUG ''Installed certificate: '%s' successfully'' [S certPath] w2)
         else (LE_FAULT,
               LE_ERROR ''Failed to import certificate '%s', exitCode: %d''
                 [S certPath, D (sint (WEXITSTATUS exitCode))] w2))"
  by (simp add: ImportPublicCert_def call_system_eq Let_def exit_zero_def)

lemma ImportPublicCert_fst:
  "fst (ImportPublicCert system certPath w) =
     (if exit_zero (fst (system (import_cmd certPath) (ext w))) then LE_OK else LE_FAULT)"
  by (simp add: ImportPublicCert_eq Let_def)

lemma ImportPublicCert_trace:
  "trace (snd (ImportPublicCert system certPath w)) =
     trace w @ [(import_cmd certPath, fst (system (import_cmd certPath) (ext w)))]"
  by (simp add: ImportPublicCert_eq Let_def)

lemma ima_IsEnabled_eq:
  "ima_IsEnabled system w =
     (exit_zero (fst (system IsEnabled_cmd (ext w))),
      w\<lparr>ext := snd (system IsEnabled_cmd (ext w)),
        trace := trace w @ [(IsEnabled_cmd, fst (system IsEnabled_cmd (ext w)))]\<rparr>)"
  by (simp add: ima_IsEnabled_def call_system_eq exit_zero_def)

subsection \<open>VerifyDir and the command buffer\<close>

lemma VerifyDir_Some:
  assumes "fts_open dirPath = Some entries"
  shows "VerifyDir system fts_open PUB dirPath certPath w =
         VerifyDir_loop system PUB certPath entries w"
  using assms by (simp add: VerifyDir_def)

lemma VerifyDir_None:
  assumes "fts_open dirPath = None"
  shows "VerifyDir system fts_open PUB dirPath certPath w =
         (LE_FAULT, LE_CRIT ''Could not access dir '%s'.  %m.'' [S dirPath] w)"
  using assms by (simp add: VerifyDir_def)

lemma issued_same_trace:
  assumes "trace w' = trace w"
  shows "issued w w' = []"
  using assms by (simp add: issued_def)

lemma snprintf_truncates:
  assumes "MAX_CMD_BYTES - 1 < length formatted"
  shows "snprintf MAX_CMD_BYTES formatted = take 4095 formatted \<and>
         length (snprintf MAX_CMD_BYTES formatted) = 4095 \<and>
         snprintf MAX_CMD_BYTES formatted \<noteq> formatted"
proof -
  have l: "length (snprintf MAX_CMD_BYTES formatted) = 4095"
    using assms by (simp add: snprintf_def MAX_CMD_BYTES_def)
  then have "length (snprintf MAX_CMD_BYTES formatted) \<noteq> length formatted"
    using assms by (simp add: MAX_CMD_BYTES_def)
  then have "snprintf MAX_CMD_BYTES formatted \<noteq> formatted"
    by auto
  with l show ?thesis
    by (simp add: snprintf_def MAX_CMD_BYTES_def)
qed

lemma issued_snoc:
  assumes "trace w' = trace w @ tr"
  shows "issued w w' = tr"
  using assms by (simp add: issued_def)

lemma public_entry_points:
  "ima_VerifyFile system filePath certPath w = VerifyFile system filePath certPath w"
  "ima_VerifyDir system fts_open PUB dirPath certPath w =
     VerifyDir system fts_open PUB dirPath certPath w"
  "ima_ImportPublicCert system certPath w = ImportPublicCert system certPath w"
  by (simp_all add: ima_VerifyFile_def ima_VerifyDir_def ima_ImportPublicCert_def)

subsection \<open>The traversal of the example trees\<close>

lemma example_tree_root: "example_tree ''/root'' = Some example_entries"
  by (simp add: example_tree_def libc_fts_open_def example_fs_def example_entries_def
      fts_basename_def fts_ent_def child_path_def)

lemma libc_fts_open_NULL: "libc_fts_open fs dirPath = None \<longleftrightarrow> dirPath = []"
  by (simp add: libc_fts_open_def)

lemma VerifyDir_loop_no_file:
  assumes "\<forall>e \<in> set es. fts_info e \<noteq> FTS_F"
  shows "fst (VerifyDir_loop system PUB certPath es w) = LE_OK \<and>
         issued w (snd (VerifyDir_loop system PUB certPath es w)) = [] \<and>
         ext (snd (VerifyDir_loop system PUB certPath es w)) = ext w"
  using assms
proof (induction es arbitrary: w)
  case Nil
  show ?case by (simp add: issued_def)
next
  case (Cons e es)
  then have n: "\<not> eligible PUB e"
    by (simp add: eligible_def)
  from Cons have "\<forall>e \<in> set es. fts_info e \<noteq> FTS_F"
    by simp
  from Cons.IH [OF this, of "debug_entry e w"] show ?case
    by (simp only: fst_skip [OF n] ext_skip [OF n] issued_skip [OF n] debug_entry_simps)
qed

subsection \<open>The entries the loop reaches\<close>






subsection \<open>The shell on the two command lines\<close>

lemma lex_IsEnabled_cmd:
  "lex IsEnabled_cmd =
     Some [LParen, TWord (map PChar ''zcat''), TWord (map PChar ''/proc/config.gz''), Pipe,
       TWord (map PChar ''grep''), TWord (map PChar ''CONFIG_IMA=y''), RParen, AndIf, LParen,
       TWord (map PChar ''cat''), TWord (map PChar ''/proc/cmdline''), Pipe, TWord (map PChar ''grep''),
       TWord (map PChar ''ima_appraise=enforce''), RParen]"
  by code_simp

lemma field_literal [simp]: "field vs (map PChar cs) = Some cs"
  by (induction cs) simp_all

lemma expand_word_literal [simp]: "cs \<noteq> [] \<Longrightarrow> expand_word vs (map PChar cs) = Some [cs]"
  by (cases cs) simp_all

lemma literal_map_C [simp]: "literal (map PChar cs) = Some cs"
  by (induction cs) simp_all

lemma sh_run_IsEnabled:
  "sh_run (utilities t) IsEnabled_cmd m =
     Some (if config_probe m \<and> cmdline_probe m then 0 else 1, m)"
  by (cases "proc_config m")
     (simp_all add: sh_run_def lex_IsEnabled_cmd sh_init_def finish_def run_simple_def
       utilities_def grep_lines_def config_probe_def cmdline_probe_def name_char_def)









lemma sh_system_exit_zero:
  assumes "sh_run ex cmd m = Some (st, m1)"
  shows "exit_zero (fst (sh_system spawns ex other cmd m)) \<longleftrightarrow> spawns \<and> st = 0"
  using assms exit_zero_SpawnFailed
  by (simp add: sh_system_def exit_zero_Exited del: wait_status.simps)

lemma sh_system_state:
  assumes "sh_run ex cmd m = Some (st, m1)"
  shows "snd (sh_system spawns ex other cmd m) = (if spawns then m1 else m)"
  using assms by (simp add: sh_system_def)

section \<open>The specification's statements\<close>

text \<open>
  C2. For every file path and certificate path, \<open>VerifyFile\<close> returns \<open>LE_OK\<close> (Verified)
  if and only if the command it hands to \<^verbatim>\<open>system\<close> ends by a normal exit with status
  zero; a non-zero exit, a kill by a signal and a failure to start the command all give
  \<open>LE_FAULT\<close>.
\<close>

theorem VerifyFile_verified_iff:
  assumes "fst (system (verify_cmd filePath certPath) (ext w)) = wait_status t"
    and "valid_outcome t"
  shows "fst (VerifyFile system filePath certPath w) = (if t = Exited 0 then LE_OK else LE_FAULT)"
  using assms by (simp only: VerifyFile_fst exit_zero_wait_status)

theorem VerifyFile_verified_iff_witness:
  "fst (VerifyFile (fixed_tool (tool_exits 0)) ''/bin/app'' ''/keys/ima.pem'' (empty_world ()))
     = LE_OK \<and>
   fst (VerifyFile (fixed_tool (tool_exits 3)) ''/bin/app'' ''/keys/ima.pem'' (empty_world ()))
     = LE_FAULT \<and>
   fst (VerifyFile (fixed_tool (tool_killed 9)) ''/bin/app'' ''/keys/ima.pem'' (empty_world ()))
     = LE_FAULT \<and>
   fst (VerifyFile (fixed_tool tool_unspawned) ''/bin/app'' ''/keys/ima.pem'' (empty_world ()))
     = LE_FAULT"
  using
    VerifyFile_verified_iff [of "fixed_tool (tool_exits 0)" "''/bin/app''" "''/keys/ima.pem''"
      "empty_world ()" "Exited 0"]
    VerifyFile_verified_iff [of "fixed_tool (tool_exits 3)" "''/bin/app''" "''/keys/ima.pem''"
      "empty_world ()" "Exited 3"]
    VerifyFile_verified_iff [of "fixed_tool (tool_killed 9)" "''/bin/app''" "''/keys/ima.pem''"
      "empty_world ()" "Signaled 9 False"]
    VerifyFile_verified_iff [of "fixed_tool tool_unspawned" "''/bin/app''" "''/keys/ima.pem''"
      "empty_world ()" "SpawnFailed"]
  by (simp add: fixed_tool_def tool_exits_def tool_killed_def tool_unspawned_def)

text \<open>
  C8, as the code has it. On every \<open>LE_FAULT\<close> of \<open>VerifyFile\<close> the last log entry is an
  error carrying the file path, the certificate path and the value of
  \<^verbatim>\<open>WEXITSTATUS\<close> on the status: the exit code after a non-zero exit (never 0), 0 after a
  kill by any signal, 255 when the command could not be started.
\<close>

theorem VerifyFile_fault_report:
  assumes "fst (system (verify_cmd filePath certPath) (ext w)) = wait_status t"
    and "valid_outcome t"
    and "t \<noteq> Exited 0"
  shows "fst (VerifyFile system filePath certPath w) = LE_FAULT \<and>
    last (logs (snd (VerifyFile system filePath certPath w))) =
      (ERROR, ''Failed to verify file '%s' with certificate '%s', exitCode: %d'',
       [S filePath, S certPath,
        D (case t of Exited code \<Rightarrow> uint code | Signaled sig core \<Rightarrow> 0 | SpawnFailed \<Rightarrow> 255)]) \<and>
    (case t of Exited code \<Rightarrow> uint code \<noteq> 0 | Signaled sig core \<Rightarrow> True | SpawnFailed \<Rightarrow> True)"
proof -
  have z: "\<not> exit_zero (wait_status t)"
    using exit_zero_wait_status [OF assms(2)] assms(3) by simp
  have r: "sint (WEXITSTATUS (wait_status t)) =
      (case t of Exited code \<Rightarrow> uint code | Signaled sig core \<Rightarrow> 0 | SpawnFailed \<Rightarrow> 255)"
    by (rule reported_status [OF assms(2)])
  have n: "case t of Exited code \<Rightarrow> uint code \<noteq> 0 | Signaled sig core \<Rightarrow> True | SpawnFailed \<Rightarrow> True"
    using assms(3) by (cases t) (simp_all add: uint_0_iff)
  show ?thesis
    using z n by (simp only: VerifyFile_fst VerifyFile_logs assms(1) Let_def r if_False last_snoc
        last_appendR last.simps) simp
qed

theorem VerifyFile_fault_report_witness:
  "last (logs (snd (VerifyFile (fixed_tool (tool_exits 3)) ''/bin/app'' ''/keys/ima.pem''
      (empty_world ())))) =
     (ERROR, ''Failed to verify file '%s' with certificate '%s', exitCode: %d'',
      [S ''/bin/app'', S ''/keys/ima.pem'', D 3]) \<and>
   last (logs (snd (VerifyFile (fixed_tool (tool_killed 9)) ''/bin/app'' ''/keys/ima.pem''
      (empty_world ())))) =
     (ERROR, ''Failed to verify file '%s' with certificate '%s', exitCode: %d'',
      [S ''/bin/app'', S ''/keys/ima.pem'', D 0]) \<and>
   last (logs (snd (VerifyFile (fixed_tool tool_unspawned) ''/bin/app'' ''/keys/ima.pem''
      (empty_world ())))) =
     (ERROR, ''Failed to verify file '%s' with certificate '%s', exitCode: %d'',
      [S ''/bin/app'', S ''/keys/ima.pem'', D 255])"
  using
    VerifyFile_fault_report [of "fixed_tool (tool_exits 3)" "''/bin/app''" "''/keys/ima.pem''"
      "empty_world ()" "Exited 3"]
    VerifyFile_fault_report [of "fixed_tool (tool_killed 9)" "''/bin/app''" "''/keys/ima.pem''"
      "empty_world ()" "Signaled 9 False"]
    VerifyFile_fault_report [of "fixed_tool tool_unspawned" "''/bin/app''" "''/keys/ima.pem''"
      "empty_world ()" "SpawnFailed"]
  by (simp add: fixed_tool_def tool_exits_def tool_killed_def tool_unspawned_def)

text \<open>
  C8 as stated asks for the actual termination status in the report. A command killed by
  signal 9 and one killed by signal 15 return different statuses, yet leave the same log,
  whose error entry says \<^verbatim>\<open>exitCode: 0\<close>.
\<close>

theorem VerifyFile_signal_report_counterexample:
  "wait_status (Signaled 9 False) \<noteq> wait_status (Signaled 15 False) \<and>
   logs (snd (VerifyFile (fixed_tool (tool_killed 9)) ''/bin/app'' ''/keys/ima.pem''
      (empty_world ()))) =
   logs (snd (VerifyFile (fixed_tool (tool_killed 15)) ''/bin/app'' ''/keys/ima.pem''
      (empty_world ()))) \<and>
   last (logs (snd (VerifyFile (fixed_tool (tool_killed 9)) ''/bin/app'' ''/keys/ima.pem''
      (empty_world ())))) =
     (ERROR, ''Failed to verify file '%s' with certificate '%s', exitCode: %d'',
      [S ''/bin/app'', S ''/keys/ima.pem'', D 0])"
proof -
  have k: "\<not> exit_zero (wait_status (Signaled 9 False))" "\<not> exit_zero (wait_status (Signaled 15 False))"
    using exit_zero_wait_status [of "Signaled 9 False"] exit_zero_wait_status [of "Signaled 15 False"]
    by simp_all
  have s: "WEXITSTATUS (wait_status (Signaled 9 False)) = 0"
    "WEXITSTATUS (wait_status (Signaled 15 False)) = 0"
    using WEXITSTATUS_Signaled [of 9 False] WEXITSTATUS_Signaled [of 15 False] by simp_all
  show ?thesis
    using k s by (simp add: VerifyFile_logs Let_def tool_killed_def del: wait_status.simps) simp
qed

text \<open>
  C4, as the code runs. \<open>VerifyDir\<close> tests only whether \<^verbatim>\<open>fts_open\<close> returned \<^verbatim>\<open>NULL\<close>,
  which the C library does for the empty path and for no other. For a root that does not
  exist, or a directory that cannot be read, \<^verbatim>\<open>fts_open\<close> succeeds, the traversal
  consists of error entries which the switch passes over, and \<open>VerifyDir\<close> returns
  \<open>LE_OK\<close>, not \<open>LE_FAULT\<close>. No command is handed to \<^verbatim>\<open>system\<close> and the machine is
  untouched. For the empty path it returns \<open>LE_FAULT\<close>, and again no command is issued.
\<close>

theorem VerifyDir_inaccessible_root:
  "(libc_fts_open fs dirPath = None \<longleftrightarrow> dirPath = []) \<and>
   (dirPath = [] \<longrightarrow>
      fst (VerifyDir system (libc_fts_open fs) PUB dirPath certPath w) = LE_FAULT \<and>
      issued w (snd (VerifyDir system (libc_fts_open fs) PUB dirPath certPath w)) = [] \<and>
      ext (snd (VerifyDir system (libc_fts_open fs) PUB dirPath certPath w)) = ext w) \<and>
   (dirPath \<noteq> [] \<and> (fs dirPath = None \<or> (\<exists>children. fs dirPath = Some (Dir False children)))
    \<longrightarrow>
      fst (VerifyDir system (libc_fts_open fs) PUB dirPath certPath w) = LE_OK \<and>
      issued w (snd (VerifyDir system (libc_fts_open fs) PUB dirPath certPath w)) = [] \<and>
      ext (snd (VerifyDir system (libc_fts_open fs) PUB dirPath certPath w)) = ext w)"
proof (intro conjI impI)
  show "libc_fts_open fs dirPath = None \<longleftrightarrow> dirPath = []"
    by (rule libc_fts_open_NULL)
next
  assume e: "dirPath = []"
  then have n: "libc_fts_open fs dirPath = None"
    by (simp add: libc_fts_open_NULL)
  show "fst (VerifyDir system (libc_fts_open fs) PUB dirPath certPath w) = LE_FAULT"
    by (simp add: VerifyDir_None [of "libc_fts_open fs" dirPath, OF n])
  show "issued w (snd (VerifyDir system (libc_fts_open fs) PUB dirPath certPath w)) = []"
    by (simp add: VerifyDir_None [of "libc_fts_open fs" dirPath, OF n] issued_same_trace)
  show "ext (snd (VerifyDir system (libc_fts_open fs) PUB dirPath certPath w)) = ext w"
    by (simp add: VerifyDir_None [of "libc_fts_open fs" dirPath, OF n])
next
  assume a: "dirPath \<noteq> [] \<and>
    (fs dirPath = None \<or> (\<exists>children. fs dirPath = Some (Dir False children)))"
  then obtain entries where s: "libc_fts_open fs dirPath = Some entries"
    and f: "\<forall>e \<in> set entries. fts_info e \<noteq> FTS_F"
    by (auto simp: libc_fts_open_def fts_ent_def)
  note l = VerifyDir_loop_no_file [OF f, of system PUB certPath w]
  show "fst (VerifyDir system (libc_fts_open fs) PUB dirPath certPath w) = LE_OK"
    unfolding VerifyDir_Some [of "libc_fts_open fs" dirPath entries, OF s] using l by blast
  show "issued w (snd (VerifyDir system (libc_fts_open fs) PUB dirPath certPath w)) = []"
    unfolding VerifyDir_Some [of "libc_fts_open fs" dirPath entries, OF s] using l by blast
  show "ext (snd (VerifyDir system (libc_fts_open fs) PUB dirPath certPath w)) = ext w"
    unfolding VerifyDir_Some [of "libc_fts_open fs" dirPath entries, OF s] using l by blast
qed

theorem VerifyDir_inaccessible_root_witness:
  "example_fs ''/missing'' = None \<and>
   example_tree ''/missing'' =
     Some [\<lparr>fts_name = ''missing'', fts_accpath = ''/missing'', fts_path = ''/missing'',
             fts_info = FTS_NS\<rparr>] \<and>
   fst (VerifyDir (fixed_tool (tool_exits 1)) example_tree ''cert.pem'' ''/missing''
          ''/keys/ima.pem'' (empty_world ())) = LE_OK \<and>
   issued (empty_world ()) (snd (VerifyDir (fixed_tool (tool_exits 1)) example_tree ''cert.pem''
          ''/missing'' ''/keys/ima.pem'' (empty_world ()))) = [] \<and>
   sealed_fs ''/sealed'' = Some (Dir False [(''a.bin'', File)]) \<and>
   fst (VerifyDir (fixed_tool (tool_exits 1)) (libc_fts_open sealed_fs) ''cert.pem'' ''/sealed''
          ''/keys/ima.pem'' (empty_world ())) = LE_OK \<and>
   fst (VerifyDir (fixed_tool (tool_exits 1)) example_tree ''cert.pem'' []
          ''/keys/ima.pem'' (empty_world ())) = LE_FAULT"
  using
    VerifyDir_inaccessible_root [of example_fs "''/missing''" "fixed_tool (tool_exits 1)"
      "''cert.pem''" "''/keys/ima.pem''" "empty_world ()"]
    VerifyDir_inaccessible_root [of sealed_fs "''/sealed''" "fixed_tool (tool_exits 1)"
      "''cert.pem''" "''/keys/ima.pem''" "empty_world ()"]
    VerifyDir_inaccessible_root [of example_fs "[]" "fixed_tool (tool_exits 1)"
      "''cert.pem''" "''/keys/ima.pem''" "empty_world ()"]
  by (simp add: example_tree_def example_fs_def sealed_fs_def libc_fts_open_def fts_ent_def
      fts_basename_def)




text \<open>
  C3. In every \<open>VerifyDir\<close> call, whatever the order of the traversal, every command
  issued before the last one ended with exit status zero: no command is issued after one
  that failed. Once the entries visited so far have produced \<open>LE_FAULT\<close>, the call ends
  there: the entries that remain are not visited, and the last command issued is the one
  that failed.
\<close>

theorem VerifyDir_stops_at_first_fault:
  "(\<forall>(cmd, exitCode) \<in> set (butlast (issued w
        (snd (VerifyDir system fts_open PUB dirPath certPath w)))). exit_zero exitCode) \<and>
   (fts_open dirPath = Some (visited @ remaining) \<and>
    fst (VerifyDir_loop system PUB certPath visited w) = LE_FAULT \<longrightarrow>
      VerifyDir system fts_open PUB dirPath certPath w =
        VerifyDir_loop system PUB certPath visited w \<and>
      issued w (snd (VerifyDir system fts_open PUB dirPath certPath w)) \<noteq> [] \<and>
      \<not> exit_zero (snd (last (issued w
          (snd (VerifyDir system fts_open PUB dirPath certPath w))))))"
proof (intro conjI impI)
  show "\<forall>(cmd, exitCode) \<in> set (butlast (issued w
        (snd (VerifyDir system fts_open PUB dirPath certPath w)))). exit_zero exitCode"
  proof (cases "fts_open dirPath")
    case None
    then show ?thesis by (simp add: VerifyDir_None issued_same_trace)
  next
    case (Some entries)
    show ?thesis
      unfolding VerifyDir_Some [of fts_open dirPath entries, OF Some] by (rule issued_all_but_last_ok)
  qed
next
  assume a: "fts_open dirPath = Some (visited @ remaining) \<and>
    fst (VerifyDir_loop system PUB certPath visited w) = LE_FAULT"
  then have eq: "VerifyDir system fts_open PUB dirPath certPath w =
      VerifyDir_loop system PUB certPath visited w"
    by (simp add: VerifyDir_Some fault_ignores_rest)
  show "VerifyDir system fts_open PUB dirPath certPath w =
      VerifyDir_loop system PUB certPath visited w"
    by (rule eq)
  show "issued w (snd (VerifyDir system fts_open PUB dirPath certPath w)) \<noteq> []"
    unfolding eq using a fault_last_failed by blast
  show "\<not> exit_zero (snd (last (issued w
          (snd (VerifyDir system fts_open PUB dirPath certPath w)))))"
    unfolding eq using a fault_last_failed by blast
qed

theorem VerifyDir_stops_at_first_fault_witness:
  "example_tree ''/root'' = Some (take 2 example_entries @ drop 2 example_entries) \<and>
   fst (VerifyDir_loop (fixed_tool (tool_rejecting (verify_cmd ''a.bin'' ''/keys/ima.pem'')))
          ''cert.pem'' ''/keys/ima.pem'' (take 2 example_entries) (empty_world ())) = LE_FAULT \<and>
   map fst (issued (empty_world ())
     (snd (VerifyDir (fixed_tool (tool_rejecting (verify_cmd ''a.bin'' ''/keys/ima.pem'')))
            example_tree ''cert.pem'' ''/root'' ''/keys/ima.pem'' (empty_world ())))) =
     [verify_cmd ''a.bin'' ''/keys/ima.pem'']"
  using VerifyDir_stops_at_first_fault [of "empty_world ()"
      "fixed_tool (tool_rejecting (verify_cmd ''a.bin'' ''/keys/ima.pem''))" example_tree
      "''cert.pem''" "''/root''" "''/keys/ima.pem''" "take 2 example_entries"
      "drop 2 example_entries"]
  by (simp add: example_tree_root example_entries_def VerifyDir_loop.simps VerifyFile_eq Let_def
      fixed_tool_def tool_rejecting_def empty_world_def issued_def debug_entry_def LE_DEBUG_def
      LE_ERROR_def LE_CRIT_def exit_zero_Exited del: wait_status.simps)

text \<open>
  C5. Every command a \<open>VerifyDir\<close> call issues is the verification command of a traversal
  entry that is a regular file and whose name differs from \<^verbatim>\<open>PUB_CERT_NAME\<close>: a regular
  file named exactly \<^verbatim>\<open>PUB_CERT_NAME\<close> is never handed to \<open>VerifyFile\<close>, while the
  other regular files beside it are.
\<close>

theorem VerifyDir_never_verifies_certificate:
  "\<forall>(cmd, exitCode) \<in> set (issued w (snd (VerifyDir system fts_open PUB dirPath certPath w))).
     \<exists>entries e. fts_open dirPath = Some entries \<and> e \<in> set entries \<and>
       fts_info e = FTS_F \<and> fts_name e \<noteq> PUB \<and> cmd = verify_cmd (fts_accpath e) certPath"
proof (cases "fts_open dirPath")
  case None
  then show ?thesis by (simp add: VerifyDir_None issued_same_trace)
next
  case (Some entries)
  show ?thesis
    using issued_provenance [of w system PUB certPath entries]
    unfolding VerifyDir_Some [of fts_open dirPath entries, OF Some] Some
    by fastforce
qed

theorem VerifyDir_never_verifies_certificate_witness:
  "map fst (issued (empty_world ())
     (snd (VerifyDir (fixed_tool (tool_exits 0)) example_tree ''cert.pem'' ''/root''
            ''/keys/ima.pem'' (empty_world ())))) =
     [verify_cmd ''a.bin'' ''/keys/ima.pem'', verify_cmd ''b.bin'' ''/keys/ima.pem''] \<and>
   verify_cmd ''cert.pem'' ''/keys/ima.pem'' \<notin> fst ` set (issued (empty_world ())
     (snd (VerifyDir (fixed_tool (tool_exits 0)) example_tree ''cert.pem'' ''/root''
            ''/keys/ima.pem'' (empty_world ()))))"
  using VerifyDir_never_verifies_certificate [of "empty_world ()" "fixed_tool (tool_exits 0)"
      example_tree "''cert.pem''" "''/root''" "''/keys/ima.pem''"]
  by (simp add: example_tree_root example_entries_def VerifyDir_def VerifyDir_loop.simps
      VerifyFile_eq Let_def fixed_tool_def tool_exits_def empty_world_def issued_def
      debug_entry_def LE_DEBUG_def exit_zero_Exited verify_cmd_def verify_format_def
      snprintf_def MAX_CMD_BYTES_def EVMCTL_PATH_def del: wait_status.simps)



text \<open>
  C10. The command line is built in a buffer of 4096 bytes and cut silently: when the
  formatted text is longer than 4095 bytes, the command handed to \<^verbatim>\<open>system\<close> is its first
  4095 bytes, which differs from the text asked for; nothing is reported when the command
  is built, and the result of \<open>VerifyFile\<close> and of \<open>ImportPublicCert\<close> is decided by the
  status of that cut command alone.
\<close>

theorem command_truncation:
  "(MAX_CMD_BYTES - 1 < length (verify_format filePath certPath) \<longrightarrow>
      verify_cmd filePath certPath = take 4095 (verify_format filePath certPath) \<and>
      length (verify_cmd filePath certPath) = 4095 \<and>
      verify_cmd filePath certPath \<noteq> verify_format filePath certPath \<and>
      issued w (snd (VerifyFile system filePath certPath w)) =
        [(verify_cmd filePath certPath, fst (system (verify_cmd filePath certPath) (ext w)))] \<and>
      fst (VerifyFile system filePath certPath w) =
        (if exit_zero (fst (system (verify_cmd filePath certPath) (ext w)))
         then LE_OK else LE_FAULT)) \<and>
   (MAX_CMD_BYTES - 1 < length (import_format certPath) \<longrightarrow>
      import_cmd certPath = take 4095 (import_format certPath) \<and>
      length (import_cmd certPath) = 4095 \<and>
      import_cmd certPath \<noteq> import_format certPath \<and>
      issued w (snd (ImportPublicCert system certPath w)) =
        [(import_cmd certPath, fst (system (import_cmd certPath) (ext w)))] \<and>
      fst (ImportPublicCert system certPath w) =
        (if exit_zero (fst (system (import_cmd certPath) (ext w)))
         then LE_OK else LE_FAULT))"
proof (intro conjI impI)
  assume a: "MAX_CMD_BYTES - 1 < length (verify_format filePath certPath)"
  from snprintf_truncates [OF a]
  show "verify_cmd filePath certPath = take 4095 (verify_format filePath certPath)"
    and "length (verify_cmd filePath certPath) = 4095"
    and "verify_cmd filePath certPath \<noteq> verify_format filePath certPath"
    unfolding verify_cmd_def by blast+
next
  assume a: "MAX_CMD_BYTES - 1 < length (import_format certPath)"
  from snprintf_truncates [OF a]
  show "import_cmd certPath = take 4095 (import_format certPath)"
    and "length (import_cmd certPath) = 4095"
    and "import_cmd certPath \<noteq> import_format certPath"
    unfolding import_cmd_def by blast+
next
  show "issued w (snd (VerifyFile system filePath certPath w)) =
        [(verify_cmd filePath certPath, fst (system (verify_cmd filePath certPath) (ext w)))]"
    by (rule issued_snoc) (rule VerifyFile_trace)
  show "fst (VerifyFile system filePath certPath w) =
        (if exit_zero (fst (system (verify_cmd filePath certPath) (ext w)))
         then LE_OK else LE_FAULT)"
    by (rule VerifyFile_fst)
  show "issued w (snd (ImportPublicCert system certPath w)) =
        [(import_cmd certPath, fst (system (import_cmd certPath) (ext w)))]"
    by (rule issued_snoc) (rule ImportPublicCert_trace)
  show "fst (ImportPublicCert system certPath w) =
        (if exit_zero (fst (system (import_cmd certPath) (ext w)))
         then LE_OK else LE_FAULT)"
    by (rule ImportPublicCert_fst)
qed

theorem command_truncation_witness:
  "MAX_CMD_BYTES - 1 < length (verify_format ''/bin/app'' long_path) \<and>
   MAX_CMD_BYTES - 1 < length (import_format long_path) \<and>
   verify_cmd ''/bin/app'' long_path \<noteq> verify_format ''/bin/app'' long_path \<and>
   import_cmd long_path \<noteq> import_format long_path \<and>
   fst (VerifyFile (fixed_tool (tool_exits 0)) ''/bin/app'' long_path (empty_world ())) = LE_OK \<and>
   fst (ImportPublicCert (fixed_tool (tool_exits 0)) long_path (empty_world ())) = LE_OK"
proof -
  have v: "MAX_CMD_BYTES - 1 < length (verify_format ''/bin/app'' long_path)"
    by (simp add: MAX_CMD_BYTES_def verify_format_def long_path_def)
  have i: "MAX_CMD_BYTES - 1 < length (import_format long_path)"
    by (simp add: MAX_CMD_BYTES_def import_format_def long_path_def)
  note t = command_truncation [of "''/bin/app''" long_path "empty_world ()"
      "fixed_tool (tool_exits 0)"]
  from t v have a: "verify_cmd ''/bin/app'' long_path \<noteq> verify_format ''/bin/app'' long_path"
    by blast
  from t i have b: "import_cmd long_path \<noteq> import_format long_path"
    by blast
  from t v have c: "fst (VerifyFile (fixed_tool (tool_exits 0)) ''/bin/app'' long_path
      (empty_world ())) = LE_OK"
    by (simp add: tool_exits_def exit_zero_Exited del: wait_status.simps)
  from t i have d: "fst (ImportPublicCert (fixed_tool (tool_exits 0)) long_path
      (empty_world ())) = LE_OK"
    by (simp add: tool_exits_def exit_zero_Exited del: wait_status.simps)
  from v i a b c d show ?thesis
    by blast
qed

text \<open>
  C6. \<open>ima_IsEnabled\<close> hands its command line to the shell, and returns true if and only
  if the shell runs and both probes of that command line succeed: \<^verbatim>\<open>grep\<close> finds
  \<^verbatim>\<open>CONFIG_IMA=y\<close> in the kernel configuration and \<^verbatim>\<open>ima_appraise=enforce\<close> in the boot
  command line. If either probe fails it returns false. The call issues that one command,
  logs nothing and leaves the machine as it was.
\<close>

theorem ima_IsEnabled_probes:
  "fst (ima_IsEnabled (sh_system (sh_spawns t) (utilities t) other) w) =
     (sh_spawns t \<and> config_probe (ext w) \<and> cmdline_probe (ext w)) \<and>
   ext (snd (ima_IsEnabled (sh_system (sh_spawns t) (utilities t) other) w)) = ext w \<and>
   logs (snd (ima_IsEnabled (sh_system (sh_spawns t) (utilities t) other) w)) = logs w \<and>
   map fst (issued w (snd (ima_IsEnabled (sh_system (sh_spawns t) (utilities t) other) w))) =
     [IsEnabled_cmd]"
proof -
  note r = sh_run_IsEnabled [of t "ext w"]
  have a: "exit_zero (fst (sh_system (sh_spawns t) (utilities t) other IsEnabled_cmd (ext w)))
      \<longleftrightarrow> sh_spawns t \<and> config_probe (ext w) \<and> cmdline_probe (ext w)"
    unfolding sh_system_exit_zero [of "utilities t" IsEnabled_cmd "ext w", OF r] by simp
  have b: "snd (sh_system (sh_spawns t) (utilities t) other IsEnabled_cmd (ext w)) = ext w"
    unfolding sh_system_state [of "utilities t" IsEnabled_cmd "ext w", OF r] by simp
  show ?thesis
    by (simp add: ima_IsEnabled_eq a b issued_def)
qed

theorem ima_IsEnabled_probes_witness:
  "fst (ima_IsEnabled (sh_system True (utilities tools_accepting) no_other)
          (empty_world (example_host True True))) \<and>
   \<not> fst (ima_IsEnabled (sh_system True (utilities tools_accepting) no_other)
          (empty_world (example_host True False))) \<and>
   \<not> fst (ima_IsEnabled (sh_system True (utilities tools_accepting) no_other)
          (empty_world (example_host False True))) \<and>
   \<not> fst (ima_IsEnabled (sh_system True (utilities tools_accepting) no_other)
          (empty_world (example_host False False))) \<and>
   \<not> fst (ima_IsEnabled (sh_system False (utilities no_shell) no_other)
          (empty_world (example_host True True)))"
proof -
  have s: "sh_spawns tools_accepting = True" "sh_spawns no_shell = False"
    by (simp_all add: tools_accepting_def no_shell_def)
  have p: "config_probe (example_host True e)" "\<not> config_probe (example_host False e)"
    "cmdline_probe (example_host c True)" "\<not> cmdline_probe (example_host c False)" for c e
    by (simp_all add: config_probe_def cmdline_probe_def example_host_def)
  show ?thesis
    using
      ima_IsEnabled_probes [of tools_accepting no_other "empty_world (example_host True True)"]
      ima_IsEnabled_probes [of tools_accepting no_other "empty_world (example_host True False)"]
      ima_IsEnabled_probes [of tools_accepting no_other "empty_world (example_host False True)"]
      ima_IsEnabled_probes [of tools_accepting no_other "empty_world (example_host False False)"]
      ima_IsEnabled_probes [of no_shell no_other "empty_world (example_host True True)"]
    by (simp add: s p empty_world_def)
qed




end
